theory Spec2Isabelle
  imports Main "HOL-Library.Char_ord" "HOL-Library.List_Lexorder"
begin

section \<open>Python values, strings and exceptions\<close>

text \<open>
  The module \<^verbatim>\<open>App_Function_Libraries/DB/Character_Chat_DB.py\<close> stores character cards and
  chat transcripts in an SQLite file. Its functions receive dynamically typed Python values
  (\<^verbatim>\<open>Dict[str, Any]\<close>, \<^verbatim>\<open>Union[int, Dict]\<close>), so the values are one datatype. Strings are
  lists of 8-bit characters read as the code points 0 to 255; floats are left out.
  A dictionary is an association list in insertion order, its keys are strings.
\<close>

datatype pyval =
    PNone
  | PBool bool
  | PInt int
  | PStr string
  | PBytes string
  | PList "pyval list"
  | PDict "(string \<times> pyval) list"

text \<open>
  The exceptions the module can meet. \<open>OperationalError\<close>, \<open>IntegrityError\<close> and
  \<open>ProgrammingError\<close> are subclasses of \<^verbatim>\<open>sqlite3.Error\<close>; all of them are subclasses of
  \<^verbatim>\<open>Exception\<close>.
\<close>

datatype exn =
    KeyError string
  | TypeError
  | OverflowError
  | OperationalError string
  | IntegrityError string
  | ProgrammingError

fun is_sqlite_error :: "exn \<Rightarrow> bool" where
  "is_sqlite_error (OperationalError m) = True"
| "is_sqlite_error (IntegrityError m) = True"
| "is_sqlite_error ProgrammingError = True"
| "is_sqlite_error e = False"

fun is_integrity_error :: "exn \<Rightarrow> bool" where
  "is_integrity_error (IntegrityError m) = True"
| "is_integrity_error e = False"

fun str_exn :: "exn \<Rightarrow> string" where
  "str_exn (KeyError k) = [CHR 0x27] @ k @ [CHR 0x27]"
| "str_exn TypeError = ''Object is not JSON serializable''"
| "str_exn OverflowError = ''Python int too large to convert to SQLite INTEGER''"
| "str_exn (OperationalError m) = m"
| "str_exn (IntegrityError m) = m"
| "str_exn ProgrammingError = ''Error binding parameter''"

subsection \<open>\<^verbatim>\<open>str.strip\<close> and \<^verbatim>\<open>str.lower\<close>\<close>

definition py_isspace :: "char \<Rightarrow> bool" where
  "py_isspace c = (c \<in> set [CHR 0x09, CHR 0x0A, CHR 0x0B, CHR 0x0C, CHR 0x0D,
                             CHR 0x1C, CHR 0x1D, CHR 0x1E, CHR 0x1F, CHR 0x20,
                             CHR 0x85, CHR 0xA0])"

definition strip :: "string \<Rightarrow> string" where
  "strip s = rev (dropWhile py_isspace (rev (dropWhile py_isspace s)))"

definition lower_char :: "char \<Rightarrow> char" where
  "lower_char c =
     (let n = (of_char c :: nat)
      in if (65 \<le> n \<and> n \<le> 90) \<or> (192 \<le> n \<and> n \<le> 222 \<and> n \<noteq> 215)
         then char_of (n + 32) else c)"

definition lower :: "string \<Rightarrow> string" where
  "lower s = map lower_char s"

fun join :: "string \<Rightarrow> string list \<Rightarrow> string" where
  "join sep [] = []"
| "join sep [x] = x"
| "join sep (x # y # ys) = x @ sep @ join sep (y # ys)"

subsection \<open>\<^verbatim>\<open>str(int)\<close> and \<^verbatim>\<open>json.dumps\<close>\<close>

definition hex_digit :: "nat \<Rightarrow> char" where
  "hex_digit n = ''0123456789abcdef'' ! (n mod 16)"

fun str_nat :: "nat \<Rightarrow> string" where
  "str_nat n = (if n < 10 then [hex_digit n] else str_nat (n div 10) @ [hex_digit (n mod 10)])"

declare str_nat.simps [simp del]

definition str_int :: "int \<Rightarrow> string" where
  "str_int i = (if i < 0 then CHR ''-'' # str_nat (nat (- i)) else str_nat (nat i))"

text \<open>
  \<^verbatim>\<open>json.dumps\<close> with its defaults (\<^verbatim>\<open>ensure_ascii=True\<close>, separators \<^verbatim>\<open>", "\<close> and
  \<^verbatim>\<open>": "\<close>): every character outside the range from space to tilde is escaped, as are the
  double quote and the backslash. \<open>None\<close> is the \<^verbatim>\<open>TypeError\<close> of a value that is not
  serializable (here: bytes).
\<close>

definition escape_char :: "char \<Rightarrow> string" where
  "escape_char c =
     (if c = CHR 0x22 then [CHR 0x5C, CHR 0x22]
      else if c = CHR 0x5C then [CHR 0x5C, CHR 0x5C]
      else if c = CHR 0x0A then [CHR 0x5C, CHR ''n'']
      else if c = CHR 0x0D then [CHR 0x5C, CHR ''r'']
      else if c = CHR 0x09 then [CHR 0x5C, CHR ''t'']
      else if c = CHR 0x08 then [CHR 0x5C, CHR ''b'']
      else if c = CHR 0x0C then [CHR 0x5C, CHR ''f'']
      else if (of_char c :: nat) < 32 \<or> 126 < (of_char c :: nat)
        then [CHR 0x5C, CHR ''u'', CHR ''0'', CHR ''0'',
              hex_digit ((of_char c :: nat) div 16), hex_digit (of_char c :: nat)]
      else [c])"

definition py_encode_basestring_ascii :: "string \<Rightarrow> string" where
  "py_encode_basestring_ascii s = [CHR 0x22] @ concat (map escape_char s) @ [CHR 0x22]"

fun those_list :: "'a option list \<Rightarrow> 'a list option" where
  "those_list [] = Some []"
| "those_list (None # xs) = None"
| "those_list (Some x # xs) = map_option (\<lambda>ys. x # ys) (those_list xs)"

fun json_dumps :: "pyval \<Rightarrow> string option" where
  "json_dumps PNone = Some ''null''"
| "json_dumps (PBool b) = Some (if b then ''true'' else ''false'')"
| "json_dumps (PInt i) = Some (str_int i)"
| "json_dumps (PStr s) = Some (py_encode_basestring_ascii s)"
| "json_dumps (PBytes b) = None"
| "json_dumps (PList xs) =
     map_option (\<lambda>ys. ''['' @ join '', '' ys @ '']'') (those_list (map json_dumps xs))"
| "json_dumps (PDict kvs) =
     map_option (\<lambda>ys. ''{'' @ join '', '' ys @ ''}'')
       (those_list (map (\<lambda>kv. map_option (\<lambda>s. py_encode_basestring_ascii (fst kv) @ '': '' @ s)
                                   (json_dumps (snd kv))) kvs))"

text \<open>A chat history is a list of (speaker, message) pairs; a tuple is written as a JSON list.\<close>

definition history_value :: "(string \<times> string) list \<Rightarrow> pyval" where
  "history_value h = PList (map (\<lambda>p. PList [PStr (fst p), PStr (snd p)]) h)"

section \<open>The storage engine\<close>

text \<open>
  SQLite is not part of the repository. It is modelled as far as the statements of the module
  need it, after its documentation: values are dynamically typed and a column's affinity
  converts an integer stored in a TEXT column to text; \<^verbatim>\<open>NULL = x\<close> is never true;
  \<^verbatim>\<open>INTEGER PRIMARY KEY AUTOINCREMENT\<close> gives a new row the successor of the largest id ever
  used; a statement that names a column the table does not have fails with
  \<^verbatim>\<open>OperationalError\<close>; a violated \<^verbatim>\<open>NOT NULL\<close> or \<^verbatim>\<open>UNIQUE\<close> constraint fails with
  \<^verbatim>\<open>IntegrityError\<close>; an expression nested deeper than 1000 levels (SQLite's default
  \<^verbatim>\<open>SQLITE_MAX_EXPR_DEPTH\<close>) is refused with \<^verbatim>\<open>OperationalError\<close>. The limit on the size
  of one value (10^9 bytes) and input/output faults are outside the model.
\<close>

datatype sqlval = SNull | SInt int | SText string | SBlob string

datatype affinity = AffText | AffInteger | AffNumeric | AffBlob

datatype dflt = DefaultValue sqlval | CurrentTimestamp

type_synonym row = "(string \<times> sqlval) list"

definition col :: "row \<Rightarrow> string \<Rightarrow> sqlval" where
  "col r c = (case map_of r c of None \<Rightarrow> SNull | Some v \<Rightarrow> v)"

definition row_id :: "row \<Rightarrow> int" where
  "row_id r = (case col r ''id'' of SInt i \<Rightarrow> i | _ \<Rightarrow> 0)"

record table_schema =
  tbl_name :: string
  tbl_columns :: "(string \<times> affinity) list"
  tbl_autoincrement :: bool
  tbl_not_null :: "string list"
  tbl_unique :: "string list"
  tbl_default :: "(string \<times> dflt) list"

text \<open>The three tables of \<^verbatim>\<open>initialize_database\<close>, column by column.\<close>

definition CharacterCards_schema :: table_schema where
  "CharacterCards_schema =
     \<lparr> tbl_name = ''CharacterCards'',
       tbl_columns =
         [(''id'', AffInteger), (''name'', AffText), (''description'', AffText),
          (''personality'', AffText), (''scenario'', AffText), (''image'', AffBlob),
          (''post_history_instructions'', AffText), (''first_mes'', AffText),
          (''mes_example'', AffText), (''creator_notes'', AffText), (''system_prompt'', AffText),
          (''alternate_greetings'', AffText), (''tags'', AffText), (''creator'', AffText),
          (''character_version'', AffText), (''extensions'', AffText),
          (''created_at'', AffNumeric)],
       tbl_autoincrement = True,
       tbl_not_null = [''name''],
       tbl_unique = [''name''],
       tbl_default = [(''created_at'', CurrentTimestamp)] \<rparr>"

definition CharacterChats_schema :: table_schema where
  "CharacterChats_schema =
     \<lparr> tbl_name = ''CharacterChats'',
       tbl_columns =
         [(''id'', AffInteger), (''character_id'', AffInteger), (''conversation_name'', AffText),
          (''chat_history'', AffText), (''is_snapshot'', AffNumeric), (''created_at'', AffNumeric)],
       tbl_autoincrement = True,
       tbl_not_null = [''character_id''],
       tbl_unique = [],
       tbl_default = [(''is_snapshot'', DefaultValue (SInt 0)), (''created_at'', CurrentTimestamp)] \<rparr>"

definition ChatKeywords_schema :: table_schema where
  "ChatKeywords_schema =
     \<lparr> tbl_name = ''ChatKeywords'',
       tbl_columns = [(''chat_id'', AffInteger), (''keyword'', AffText)],
       tbl_autoincrement = False,
       tbl_not_null = [''chat_id'', ''keyword''],
       tbl_unique = [],
       tbl_default = [] \<rparr>"

record table =
  t_rows :: "row list"
  t_seq :: int

definition empty_table :: table where
  "empty_table = \<lparr> t_rows = [], t_seq = 0 \<rparr>"

subsection \<open>Binding parameters and comparing values\<close>

text \<open>
  The \<^verbatim>\<open>sqlite3\<close> module binds \<^verbatim>\<open>None\<close>, integers (also booleans), strings and bytes;
  an integer outside 64 bits raises \<^verbatim>\<open>OverflowError\<close>, a list or a dictionary cannot be bound.
\<close>

fun bind_param :: "pyval \<Rightarrow> exn + sqlval" where
  "bind_param PNone = Inr SNull"
| "bind_param (PBool b) = Inr (SInt (if b then 1 else 0))"
| "bind_param (PInt i) =
     (if - (2 ^ 63) \<le> i \<and> i < 2 ^ 63 then Inr (SInt i) else Inl OverflowError)"
| "bind_param (PStr s) = Inr (SText s)"
| "bind_param (PBytes b) = Inr (SBlob b)"
| "bind_param (PList xs) = Inl ProgrammingError"
| "bind_param (PDict kvs) = Inl ProgrammingError"

fun bind_params :: "pyval list \<Rightarrow> exn + sqlval list" where
  "bind_params [] = Inr []"
| "bind_params (v # vs) =
     (case bind_param v of
        Inl e \<Rightarrow> Inl e
      | Inr x \<Rightarrow> (case bind_params vs of Inl e \<Rightarrow> Inl e | Inr xs \<Rightarrow> Inr (x # xs)))"

fun py_of_sql :: "sqlval \<Rightarrow> pyval" where
  "py_of_sql SNull = PNone"
| "py_of_sql (SInt i) = PInt i"
| "py_of_sql (SText s) = PStr s"
| "py_of_sql (SBlob b) = PBytes b"

fun apply_affinity :: "affinity \<Rightarrow> sqlval \<Rightarrow> sqlval" where
  "apply_affinity AffText (SInt i) = SText (str_int i)"
| "apply_affinity a v = v"

definition column_affinity :: "table_schema \<Rightarrow> string \<Rightarrow> affinity" where
  "column_affinity sch c = (case map_of (tbl_columns sch) c of None \<Rightarrow> AffBlob | Some a \<Rightarrow> a)"

definition where_eq :: "table_schema \<Rightarrow> string \<Rightarrow> sqlval \<Rightarrow> row \<Rightarrow> bool" where
  \<comment> \<open>\<^verbatim>\<open>WHERE c = ?\<close>\<close>
  "where_eq sch c v r =
     (let v' = apply_affinity (column_affinity sch c) v in v' \<noteq> SNull \<and> col r c = v')"

subsection \<open>INSERT, UPDATE and DELETE on one table\<close>

text \<open>A statement is compiled before its parameters are bound: a column the table does not
  have fails there.\<close>

definition unknown_column :: "table_schema \<Rightarrow> string list \<Rightarrow> string option" where
  "unknown_column sch cols = find (\<lambda>c. c \<notin> set (map fst (tbl_columns sch))) cols"

definition prepare_insert :: "table_schema \<Rightarrow> string list \<Rightarrow> exn option" where
  "prepare_insert sch cols =
     map_option (\<lambda>c. OperationalError (''table '' @ tbl_name sch @ '' has no column named '' @ c))
       (unknown_column sch cols)"

definition prepare_update :: "table_schema \<Rightarrow> string list \<Rightarrow> exn option" where
  "prepare_update sch cols =
     map_option (\<lambda>c. OperationalError (''no such column: '' @ c)) (unknown_column sch cols)"

definition next_rowid :: "table \<Rightarrow> int" where
  "next_rowid t = fold max (map row_id (t_rows t)) (t_seq t) + 1"

definition default_value :: "table_schema \<Rightarrow> string \<Rightarrow> string \<Rightarrow> sqlval" where
  "default_value sch now c =
     (case map_of (tbl_default sch) c of
        None \<Rightarrow> SNull
      | Some (DefaultValue v) \<Rightarrow> v
      | Some CurrentTimestamp \<Rightarrow> SText now)"

definition new_row :: "table_schema \<Rightarrow> string \<Rightarrow> int \<Rightarrow> (string \<times> sqlval) list \<Rightarrow> row" where
  "new_row sch now new_id assigns =
     map (\<lambda>ca. (fst ca,
                 case map_of assigns (fst ca) of
                   Some v \<Rightarrow> apply_affinity (snd ca) v
                 | None \<Rightarrow> if tbl_autoincrement sch \<and> fst ca = ''id'' then SInt new_id
                           else default_value sch now (fst ca)))
         (tbl_columns sch)"

definition violates_unique :: "table_schema \<Rightarrow> row list \<Rightarrow> row \<Rightarrow> string option" where
  "violates_unique sch others r =
     find (\<lambda>c. col r c \<noteq> SNull \<and> col r c \<in> set (map (\<lambda>r'. col r' c) others)) (tbl_unique sch)"

definition check_row :: "table_schema \<Rightarrow> row list \<Rightarrow> row \<Rightarrow> exn option" where
  "check_row sch others r =
     (case find (\<lambda>c. col r c = SNull) (tbl_not_null sch) of
        Some c \<Rightarrow> Some (IntegrityError (''NOT NULL constraint failed: '' @ tbl_name sch @ ''.'' @ c))
      | None \<Rightarrow>
          (case violates_unique sch others r of
             Some c \<Rightarrow> Some (IntegrityError (''UNIQUE constraint failed: '' @ tbl_name sch @ ''.'' @ c))
           | None \<Rightarrow> None))"

definition sql_insert ::
  "table_schema \<Rightarrow> string \<Rightarrow> table \<Rightarrow> (string \<times> sqlval) list \<Rightarrow> exn + (table \<times> row)" where
  "sql_insert sch now t assigns =
     (let r = new_row sch now (next_rowid t) assigns
      in case check_row sch (t_rows t) r of
           Some e \<Rightarrow> Inl e
         | None \<Rightarrow>
             Inr (\<lparr> t_rows = t_rows t @ [r],
                    t_seq = (if tbl_autoincrement sch then max (t_seq t) (row_id r)
                             else t_seq t) \<rparr>, r))"

definition assign_row :: "table_schema \<Rightarrow> (string \<times> sqlval) list \<Rightarrow> row \<Rightarrow> row" where
  "assign_row sch assigns r =
     map (\<lambda>cv. (fst cv,
                 case map_of assigns (fst cv) of
                   Some v \<Rightarrow> apply_affinity (column_affinity sch (fst cv)) v
                 | None \<Rightarrow> snd cv)) r"

fun update_rows ::
  "table_schema \<Rightarrow> (string \<times> sqlval) list \<Rightarrow> (row \<Rightarrow> bool) \<Rightarrow> row list \<Rightarrow> row list \<Rightarrow>
   exn + (row list \<times> (row \<times> row) list)" where
  "update_rows sch assigns wh done [] = Inr (done, [])"
| "update_rows sch assigns wh done (r # rest) =
     (if wh r then
        (let r' = assign_row sch assigns r
         in case check_row sch (done @ rest) r' of
              Some e \<Rightarrow> Inl e
            | None \<Rightarrow>
                (case update_rows sch assigns wh (done @ [r']) rest of
                   Inl e \<Rightarrow> Inl e
                 | Inr (rs, changes) \<Rightarrow> Inr (rs, (r, r') # changes)))
      else update_rows sch assigns wh (done @ [r]) rest)"

definition sql_update ::
  "table_schema \<Rightarrow> table \<Rightarrow> (string \<times> sqlval) list \<Rightarrow> (row \<Rightarrow> bool) \<Rightarrow>
   exn + (table \<times> (row \<times> row) list)" where
  "sql_update sch t assigns wh =
     (case update_rows sch assigns wh [] (t_rows t) of
        Inl e \<Rightarrow> Inl e
      | Inr (rs, changes) \<Rightarrow> Inr (t \<lparr> t_rows := rs \<rparr>, changes))"

definition sql_delete :: "table \<Rightarrow> (row \<Rightarrow> bool) \<Rightarrow> table \<times> row list" where
  "sql_delete t wh = (t \<lparr> t_rows := filter (\<lambda>r. \<not> wh r) (t_rows t) \<rparr>, filter wh (t_rows t))"

subsection \<open>The database, the full-text index and its triggers\<close>

text \<open>
  \<^verbatim>\<open>CharacterChats_fts\<close> is an FTS5 table with \<^verbatim>\<open>content='CharacterChats'\<close> and
  \<^verbatim>\<open>content_rowid='id'\<close>: an external-content table. It stores the index only. The index is
  modelled as the list of postings (rowid, conversation_name, chat_history) that were added
  to it and not removed; a rowid matches a query when one of its postings does. How a text
  is tokenized, which texts a query matches and how matches are ranked are parameters of the
  model (\<open>engine\<close> below).

  SQLite documents that an external-content table reads its rows from the content table:
  \<^verbatim>\<open>DELETE FROM CharacterChats_fts WHERE rowid = r\<close> visits the rows of
  \<^verbatim>\<open>CharacterChats\<close> with id \<open>r\<close> and removes from the index what the content table holds
  for them at that moment; \<^verbatim>\<open>UPDATE CharacterChats_fts SET ... WHERE rowid = r\<close> does the same
  and then adds the new values. (The documentation gives the special
  \<^verbatim>\<open>INSERT INTO fts(fts, rowid, ...) VALUES('delete', ...)\<close> command, which takes the old
  values, for triggers that run after the content table has changed.)
\<close>

type_synonym posting = "int \<times> sqlval \<times> sqlval"

record db =
  CharacterCards :: table
  CharacterChats :: table
  ChatKeywords :: table
  CharacterChats_fts :: "posting list"
  clock :: string

definition empty_db :: "string \<Rightarrow> db" where
  \<comment> \<open>the store after \<^verbatim>\<open>initialize_database\<close> on a new file\<close>
  "empty_db now =
     \<lparr> CharacterCards = empty_table, CharacterChats = empty_table, ChatKeywords = empty_table,
       CharacterChats_fts = [], clock = now \<rparr>"

definition posting_of :: "row \<Rightarrow> posting" where
  "posting_of r = (row_id r, col r ''conversation_name'', col r ''chat_history'')"

definition fts_insert :: "posting \<Rightarrow> db \<Rightarrow> db" where
  \<comment> \<open>\<^verbatim>\<open>INSERT INTO CharacterChats_fts(rowid, conversation_name, chat_history) VALUES (...)\<close>\<close>
  "fts_insert p d = d \<lparr> CharacterChats_fts := CharacterChats_fts d @ [p] \<rparr>"

definition fts_content_rows :: "db \<Rightarrow> int \<Rightarrow> row list" where
  \<comment> \<open>the rows the external-content table shows for a rowid\<close>
  "fts_content_rows d r = filter (\<lambda>c. row_id c = r) (t_rows (CharacterChats d))"

definition fts_delete_rowid :: "int \<Rightarrow> db \<Rightarrow> db" where
  \<comment> \<open>\<^verbatim>\<open>DELETE FROM CharacterChats_fts WHERE rowid = ?\<close>\<close>
  "fts_delete_rowid r d =
     fold (\<lambda>c d'. d' \<lparr> CharacterChats_fts := remove1 (posting_of c) (CharacterChats_fts d') \<rparr>)
          (fts_content_rows d r) d"

definition fts_update_rowid :: "int \<Rightarrow> sqlval \<Rightarrow> sqlval \<Rightarrow> db \<Rightarrow> db" where
  \<comment> \<open>\<^verbatim>\<open>UPDATE CharacterChats_fts SET conversation_name = ?, chat_history = ? WHERE rowid = ?\<close>\<close>
  "fts_update_rowid r n h d =
     fold (\<lambda>c d'. d' \<lparr> CharacterChats_fts :=
                          remove1 (posting_of c) (CharacterChats_fts d') @ [(r, n, h)] \<rparr>)
          (fts_content_rows d r) d"

text \<open>The three triggers of \<^verbatim>\<open>initialize_database\<close> (lines 100 to 112), each run for a row
  after the table \<^verbatim>\<open>CharacterChats\<close> has been changed.\<close>

definition CharacterChats_ai :: "row \<Rightarrow> db \<Rightarrow> db" where
  "CharacterChats_ai new d =
     fts_insert (row_id new, col new ''conversation_name'', col new ''chat_history'') d"

definition CharacterChats_ad :: "row \<Rightarrow> db \<Rightarrow> db" where
  "CharacterChats_ad old d = fts_delete_rowid (row_id old) d"

definition CharacterChats_au :: "row \<times> row \<Rightarrow> db \<Rightarrow> db" where
  "CharacterChats_au old_new d =
     fts_update_rowid (row_id (snd old_new)) (col (snd old_new) ''conversation_name'')
       (col (snd old_new) ''chat_history'') d"

subsection \<open>Statements on the tables, with foreign keys and triggers\<close>

text \<open>
  Both foreign keys are declared \<^verbatim>\<open>ON DELETE CASCADE\<close>. SQLite enforces foreign keys only on
  a connection on which \<^verbatim>\<open>PRAGMA foreign_keys = ON\<close> has been run; the flag \<open>fk\<close> below is
  that setting.
\<close>

definition insert_card :: "(string \<times> sqlval) list \<Rightarrow> db \<Rightarrow> exn + (db \<times> int)" where
  "insert_card assigns d =
     (case sql_insert CharacterCards_schema (clock d) (CharacterCards d) assigns of
        Inl e \<Rightarrow> Inl e
      | Inr (t, r) \<Rightarrow> Inr (d \<lparr> CharacterCards := t \<rparr>, row_id r))"

definition update_cards :: "(string \<times> sqlval) list \<Rightarrow> (row \<Rightarrow> bool) \<Rightarrow> db \<Rightarrow> exn + (db \<times> nat)" where
  "update_cards assigns wh d =
     (case sql_update CharacterCards_schema (CharacterCards d) assigns wh of
        Inl e \<Rightarrow> Inl e
      | Inr (t, changes) \<Rightarrow> Inr (d \<lparr> CharacterCards := t \<rparr>, length changes))"

definition delete_keywords :: "(row \<Rightarrow> bool) \<Rightarrow> db \<Rightarrow> db" where
  "delete_keywords wh d = d \<lparr> ChatKeywords := fst (sql_delete (ChatKeywords d) wh) \<rparr>"

definition delete_chat_row :: "bool \<Rightarrow> row \<Rightarrow> db \<Rightarrow> db" where
  \<comment> \<open>one row leaves the table, then its trigger runs, then the cascade to its keywords\<close>
  "delete_chat_row fk old d =
     (let d1 = d \<lparr> CharacterChats :=
                     (CharacterChats d) \<lparr> t_rows := remove1 old (t_rows (CharacterChats d)) \<rparr> \<rparr>;
          d2 = CharacterChats_ad old d1
      in if fk then delete_keywords (where_eq ChatKeywords_schema ''chat_id'' (col old ''id'')) d2
         else d2)"

definition delete_chats :: "bool \<Rightarrow> (row \<Rightarrow> bool) \<Rightarrow> db \<Rightarrow> db \<times> nat" where
  "delete_chats fk wh d =
     (let olds = filter wh (t_rows (CharacterChats d))
      in (fold (delete_chat_row fk) olds d, length olds))"

definition delete_card_row :: "bool \<Rightarrow> row \<Rightarrow> db \<Rightarrow> db" where
  "delete_card_row fk old d =
     (let d1 = d \<lparr> CharacterCards :=
                     (CharacterCards d) \<lparr> t_rows := remove1 old (t_rows (CharacterCards d)) \<rparr> \<rparr>
      in if fk
         then fst (delete_chats fk (where_eq CharacterChats_schema ''character_id'' (col old ''id'')) d1)
         else d1)"

definition delete_cards :: "bool \<Rightarrow> (row \<Rightarrow> bool) \<Rightarrow> db \<Rightarrow> db \<times> nat" where
  "delete_cards fk wh d =
     (let olds = filter wh (t_rows (CharacterCards d))
      in (fold (delete_card_row fk) olds d, length olds))"

definition insert_chat :: "bool \<Rightarrow> (string \<times> sqlval) list \<Rightarrow> db \<Rightarrow> exn + (db \<times> int)" where
  "insert_chat fk assigns d =
     (case sql_insert CharacterChats_schema (clock d) (CharacterChats d) assigns of
        Inl e \<Rightarrow> Inl e
      | Inr (t, r) \<Rightarrow>
          if fk \<and> col r ''character_id'' \<notin> set (map (\<lambda>c. col c ''id'') (t_rows (CharacterCards d)))
          then Inl (IntegrityError ''FOREIGN KEY constraint failed'')
          else Inr (CharacterChats_ai r (d \<lparr> CharacterChats := t \<rparr>), row_id r))"

definition update_chats :: "(string \<times> sqlval) list \<Rightarrow> (row \<Rightarrow> bool) \<Rightarrow> db \<Rightarrow> exn + (db \<times> nat)" where
  "update_chats assigns wh d =
     (case sql_update CharacterChats_schema (CharacterChats d) assigns wh of
        Inl e \<Rightarrow> Inl e
      | Inr (t, changes) \<Rightarrow>
          Inr (fold CharacterChats_au changes (d \<lparr> CharacterChats := t \<rparr>), length changes))"

definition insert_keyword :: "bool \<Rightarrow> (string \<times> sqlval) list \<Rightarrow> db \<Rightarrow> exn + db" where
  "insert_keyword fk assigns d =
     (case sql_insert ChatKeywords_schema (clock d) (ChatKeywords d) assigns of
        Inl e \<Rightarrow> Inl e
      | Inr (t, r) \<Rightarrow>
          if fk \<and> col r ''chat_id'' \<notin> set (map (\<lambda>c. col c ''id'') (t_rows (CharacterChats d)))
          then Inl (IntegrityError ''FOREIGN KEY constraint failed'')
          else Inr (d \<lparr> ChatKeywords := t \<rparr>))"

subsection \<open>Connections\<close>

text \<open>
  Every function of the module opens its own connection with \<^verbatim>\<open>sqlite3.connect(chat_DB_PATH)\<close>.
  A connection works on a copy that replaces the stored database at \<^verbatim>\<open>commit\<close>; closing
  without a commit discards the changes. Foreign keys are off on a new connection:
  \<^verbatim>\<open>PRAGMA foreign_keys = ON\<close> is run by \<^verbatim>\<open>initialize_database\<close> on its own connection (line 50)
  and by no other function. The log records what the Python code asks of the connection.
\<close>

datatype event = Connect | Execute string | Commit | Close

record conn =
  committed :: db
  working :: db
  foreign_keys :: bool
  log :: "event list"

definition sqlite3_connect :: "db \<Rightarrow> conn" where
  "sqlite3_connect d = \<lparr> committed = d, working = d, foreign_keys = False, log = [Connect] \<rparr>"

definition pragma_foreign_keys_on :: "conn \<Rightarrow> conn" where
  "pragma_foreign_keys_on c =
     c \<lparr> foreign_keys := True, log := log c @ [Execute ''PRAGMA foreign_keys = ON''] \<rparr>"

definition logged :: "string \<Rightarrow> conn \<Rightarrow> conn" where
  "logged sql c = c \<lparr> log := log c @ [Execute sql] \<rparr>"

definition commit :: "conn \<Rightarrow> conn" where
  "commit c = c \<lparr> committed := working c, log := log c @ [Commit] \<rparr>"

type_synonym 'a call = "(exn + 'a) \<times> db \<times> event list"

definition close :: "(exn + 'a) \<Rightarrow> conn \<Rightarrow> 'a call" where
  \<comment> \<open>the \<^verbatim>\<open>finally: conn.close()\<close> of every function, with the value returned or raised\<close>
  "close r c = (r, committed c, log c @ [Close])"

definition execute ::
  "string \<Rightarrow> exn option \<Rightarrow> pyval list \<Rightarrow> pyval list \<Rightarrow>
   (sqlval list \<Rightarrow> sqlval list \<Rightarrow> bool \<Rightarrow> db \<Rightarrow> exn + (db \<times> 'a)) \<Rightarrow> conn \<Rightarrow> (exn + 'a) \<times> conn" where
  \<comment> \<open>\<^verbatim>\<open>cursor.execute(sql, params)\<close>: compile, bind the parameters in order (those of the
     column list, then those of the WHERE clause), run on the working copy\<close>
  "execute sql prepared params where_params run c =
     (let c' = logged sql c
      in case prepared of
           Some e \<Rightarrow> (Inl e, c')
         | None \<Rightarrow>
             (case bind_params params of
                Inl e \<Rightarrow> (Inl e, c')
              | Inr vs \<Rightarrow>
                  (case bind_params where_params of
                     Inl e \<Rightarrow> (Inl e, c')
                   | Inr ws \<Rightarrow>
                       (case run vs ws (foreign_keys c) (working c) of
                          Inl e \<Rightarrow> (Inl e, c')
                        | Inr (d, x) \<Rightarrow> (Inr x, c' \<lparr> working := d \<rparr>)))))"

definition where_and :: "table_schema \<Rightarrow> string list \<Rightarrow> sqlval list \<Rightarrow> row \<Rightarrow> bool" where
  \<comment> \<open>\<^verbatim>\<open>WHERE c1 = ? AND c2 = ? ...\<close>\<close>
  "where_and sch cols ws r = list_all (\<lambda>cw. where_eq sch (fst cw) (snd cw) r) (zip cols ws)"

definition where_or :: "table_schema \<Rightarrow> string list \<Rightarrow> sqlval list \<Rightarrow> row \<Rightarrow> bool" where
  \<comment> \<open>\<^verbatim>\<open>WHERE c1 = ? OR c2 = ? ...\<close>\<close>
  "where_or sch cols ws r = list_ex (\<lambda>cw. where_eq sch (fst cw) (snd cw) r) (zip cols ws)"

section \<open>The functions of \<^verbatim>\<open>Character_Chat_DB.py\<close>\<close>

type_synonym dict = "(string \<times> pyval) list"

definition dict_get :: "dict \<Rightarrow> string \<Rightarrow> pyval \<Rightarrow> pyval" where
  \<comment> \<open>\<^verbatim>\<open>d.get(k, default)\<close>\<close>
  "dict_get d k dflt = (case map_of d k of None \<Rightarrow> dflt | Some v \<Rightarrow> v)"

definition subscript :: "dict \<Rightarrow> string \<Rightarrow> exn + pyval" where
  \<comment> \<open>\<^verbatim>\<open>d[k]\<close>\<close>
  "subscript d k = (case map_of d k of None \<Rightarrow> Inl (KeyError k) | Some v \<Rightarrow> Inr v)"

fun subscripts :: "dict \<Rightarrow> string list \<Rightarrow> exn + pyval list" where
  \<comment> \<open>the tuple \<^verbatim>\<open>(d[k1], d[k2], ...)\<close>, evaluated from left to right\<close>
  "subscripts d [] = Inr []"
| "subscripts d (k # ks) =
     (case subscript d k of
        Inl e \<Rightarrow> Inl e
      | Inr v \<Rightarrow> (case subscripts d ks of Inl e \<Rightarrow> Inl e | Inr vs \<Rightarrow> Inr (v # vs)))"

definition dict_of_row :: "row \<Rightarrow> pyval" where
  \<comment> \<open>\<^verbatim>\<open>dict(zip(columns, row))\<close>\<close>
  "dict_of_row r = PDict (map (\<lambda>cv. (fst cv, py_of_sql (snd cv))) r)"

subsection \<open>Character cards\<close>

definition parse_character_card :: "dict \<Rightarrow> exn + dict" where
  "parse_character_card card_data =
     (case json_dumps (dict_get card_data ''alternate_greetings'' (PList [])) of
        None \<Rightarrow> Inl TypeError
      | Some alternate_greetings \<Rightarrow>
     (case json_dumps (dict_get card_data ''tags'' (PList [])) of
        None \<Rightarrow> Inl TypeError
      | Some tags \<Rightarrow>
     (case json_dumps (dict_get card_data ''extensions'' (PDict [])) of
        None \<Rightarrow> Inl TypeError
      | Some extensions \<Rightarrow>
          Inr ([(''name'', dict_get card_data ''name'' (PStr [])),
                (''description'', dict_get card_data ''description'' (PStr [])),
                (''personality'', dict_get card_data ''personality'' (PStr [])),
                (''scenario'', dict_get card_data ''scenario'' (PStr [])),
                (''first_mes'', dict_get card_data ''first_mes'' (PStr [])),
                (''mes_example'', dict_get card_data ''mes_example'' (PStr [])),
                (''creator_notes'', dict_get card_data ''creator_notes'' (PStr [])),
                (''system_prompt'', dict_get card_data ''system_prompt'' (PStr [])),
                (''post_history_instructions'',
                   dict_get card_data ''post_history_instructions'' (PStr [])),
                (''alternate_greetings'', PStr alternate_greetings),
                (''tags'', PStr tags),
                (''creator'', dict_get card_data ''creator'' (PStr [])),
                (''character_version'', dict_get card_data ''character_version'' (PStr [])),
                (''extensions'', PStr extensions)]
               @ (case map_of card_data ''image'' of
                    None \<Rightarrow> []
                  | Some img \<Rightarrow> [(''image'', img)])))))"

definition card_update_columns :: "string list" where
  "card_update_columns =
     [''description'', ''personality'', ''scenario'', ''image'', ''post_history_instructions'',
      ''first_mes'', ''mes_example'', ''creator_notes'', ''system_prompt'', ''alternate_greetings'',
      ''tags'', ''creator'', ''character_version'', ''extensions'']"

definition card_insert_columns :: "string list" where
  "card_insert_columns = ''name'' # card_update_columns"

definition add_character_card :: "db \<Rightarrow> dict \<Rightarrow> int option call" where
  "add_character_card d card_data =
     (let c = sqlite3_connect d
      in case parse_character_card card_data of
           Inl e \<Rightarrow> close (Inr None) c
         | Inr parsed_card \<Rightarrow>
        (case subscript parsed_card ''name'' of
           Inl e \<Rightarrow> close (Inr None) c
         | Inr name \<Rightarrow>
        (case execute ''SELECT id FROM CharacterCards WHERE name = ?'' None [] [name]
                (\<lambda>vs ws fk d'. Inr (d', filter (where_and CharacterCards_schema [''name''] ws)
                                            (t_rows (CharacterCards d')))) c of
           (Inl e, c1) \<Rightarrow> close (Inr None) c1
         | (Inr (row # other), c1) \<Rightarrow>
             \<comment> \<open>update existing character\<close>
             (case subscripts parsed_card card_update_columns of
                Inl e \<Rightarrow> close (Inr None) c1
              | Inr params \<Rightarrow>
                  (case execute ''UPDATE CharacterCards SET ... WHERE id = ?''
                          (prepare_update CharacterCards_schema card_update_columns)
                          params [PInt (row_id row)]
                          (\<lambda>vs ws fk. update_cards (zip card_update_columns vs)
                                        (where_and CharacterCards_schema [''id''] ws)) c1 of
                     (Inl e, c2) \<Rightarrow> close (Inr None) c2
                   | (Inr n, c2) \<Rightarrow> close (Inr (Some (row_id row))) (commit c2)))
         | (Inr [], c1) \<Rightarrow>
             \<comment> \<open>insert new character\<close>
             (case subscripts parsed_card card_insert_columns of
                Inl e \<Rightarrow> close (Inr None) c1
              | Inr params \<Rightarrow>
                  (case execute ''INSERT INTO CharacterCards (...) VALUES (...)''
                          (prepare_insert CharacterCards_schema card_insert_columns)
                          params []
                          (\<lambda>vs ws fk. insert_card (zip card_insert_columns vs)) c1 of
                     (Inl e, c2) \<Rightarrow> close (Inr None) c2
                   | (Inr lastrowid, c2) \<Rightarrow> close (Inr (Some lastrowid)) (commit c2))))))"

definition select_card_by_id :: "pyval \<Rightarrow> conn \<Rightarrow> pyval call" where
  \<comment> \<open>the \<^verbatim>\<open>isinstance(character_id, int)\<close> branch of \<^verbatim>\<open>get_character_card_by_id\<close>\<close>
  "select_card_by_id character_id c =
     (case execute ''SELECT * FROM CharacterCards WHERE id = ?'' None [] [character_id]
             (\<lambda>vs ws fk d'. Inr (d', filter (where_and CharacterCards_schema [''id''] ws)
                                         (t_rows (CharacterCards d')))) c of
        (Inl e, c1) \<Rightarrow> close (Inr PNone) c1
      | (Inr [], c1) \<Rightarrow> close (Inr PNone) c1
      | (Inr (row # other), c1) \<Rightarrow> close (Inr (dict_of_row row)) c1)"

fun get_character_card_by_id :: "db \<Rightarrow> pyval \<Rightarrow> pyval call" where
  "get_character_card_by_id d (PDict cd) = close (Inr (PDict cd)) (sqlite3_connect d)"
| "get_character_card_by_id d (PInt i) = select_card_by_id (PInt i) (sqlite3_connect d)"
| "get_character_card_by_id d (PBool b) = select_card_by_id (PBool b) (sqlite3_connect d)"
| "get_character_card_by_id d other = close (Inr PNone) (sqlite3_connect d)"

definition card_update_columns_by_id :: "string list" where
  \<comment> \<open>the column list of the statement in \<^verbatim>\<open>update_character_card\<close> (line 361)\<close>
  "card_update_columns_by_id =
     [''name'', ''description'', ''personality'', ''scenario'', ''image'',
      ''post_history_instructions'', ''first_message'']"

definition update_character_card :: "db \<Rightarrow> int \<Rightarrow> dict \<Rightarrow> bool call" where
  "update_character_card d character_id card_data =
     (let c = sqlite3_connect d
      in case execute ''UPDATE CharacterCards SET name = ?, ..., first_message = ? WHERE id = ?''
                (prepare_update CharacterCards_schema card_update_columns_by_id)
                [dict_get card_data ''name'' PNone,
                 dict_get card_data ''description'' PNone,
                 dict_get card_data ''personality'' PNone,
                 dict_get card_data ''scenario'' PNone,
                 dict_get card_data ''image'' PNone,
                 dict_get card_data ''post_history_instructions'' (PStr []),
                 dict_get card_data ''first_message''
                   (PStr (''Hello! I'' @ [CHR 0x27] @ ''m ready to chat.''))]
                [PInt character_id]
                (\<lambda>vs ws fk. update_cards (zip card_update_columns_by_id vs)
                              (where_and CharacterCards_schema [''id''] ws)) c of
           (Inr rowcount, c1) \<Rightarrow> close (Inr (rowcount > 0)) (commit c1)
         | (Inl e, c1) \<Rightarrow>
             if is_integrity_error e then close (Inr False) c1 else close (Inl e) c1)"

definition delete_character_card :: "db \<Rightarrow> int \<Rightarrow> bool call" where
  "delete_character_card d character_id =
     (let c = sqlite3_connect d
      in case execute ''DELETE FROM CharacterChats WHERE character_id = ?'' None []
                [PInt character_id]
                (\<lambda>vs ws fk d'. Inr (delete_chats fk
                                       (where_and CharacterChats_schema [''character_id''] ws) d')) c of
           (Inl e, c1) \<Rightarrow> if is_sqlite_error e then close (Inr False) c1 else close (Inl e) c1
         | (Inr n, c1) \<Rightarrow>
             (case execute ''DELETE FROM CharacterCards WHERE id = ?'' None [] [PInt character_id]
                     (\<lambda>vs ws fk d'. Inr (delete_cards fk
                                            (where_and CharacterCards_schema [''id''] ws) d')) c1 of
                (Inl e, c2) \<Rightarrow> if is_sqlite_error e then close (Inr False) c2 else close (Inl e) c2
              | (Inr rowcount, c2) \<Rightarrow> close (Inr (rowcount > 0)) (commit c2)))"

subsection \<open>Chats\<close>

fun executemany_keywords :: "(int \<times> string) list \<Rightarrow> conn \<Rightarrow> (exn + unit) \<times> conn" where
  "executemany_keywords [] c = (Inr (), c)"
| "executemany_keywords (r # rs) c =
     (case execute ''INSERT INTO ChatKeywords (chat_id, keyword) VALUES (?, ?)''
             (prepare_insert ChatKeywords_schema [''chat_id'', ''keyword''])
             [PInt (fst r), PStr (snd r)] []
             (\<lambda>vs ws fk d'. case insert_keyword fk (zip [''chat_id'', ''keyword''] vs) d' of
                               Inl e \<Rightarrow> Inl e | Inr d'' \<Rightarrow> Inr (d'', ())) c of
        (Inl e, c1) \<Rightarrow> (Inl e, c1)
      | (Inr u, c1) \<Rightarrow> executemany_keywords rs c1)"

definition chat_insert_columns :: "string list" where
  "chat_insert_columns = [''character_id'', ''conversation_name'', ''chat_history'', ''is_snapshot'']"

definition add_character_chat ::
  "db \<Rightarrow> int \<Rightarrow> string \<Rightarrow> (string \<times> string) list \<Rightarrow> string list option \<Rightarrow> bool \<Rightarrow> int option call" where
  "add_character_chat d character_id conversation_name chat_history keywords is_snapshot =
     (let c = sqlite3_connect d
      in case json_dumps (history_value chat_history) of
           None \<Rightarrow> close (Inl TypeError) c
         | Some chat_history_json \<Rightarrow>
        (case execute ''INSERT INTO CharacterChats (...) VALUES (?, ?, ?, ?)''
                (prepare_insert CharacterChats_schema chat_insert_columns)
                [PInt character_id, PStr conversation_name, PStr chat_history_json,
                 PBool is_snapshot] []
                (\<lambda>vs ws fk. insert_chat fk (zip chat_insert_columns vs)) c of
           (Inl e, c1) \<Rightarrow> if is_sqlite_error e then close (Inr None) c1 else close (Inl e) c1
         | (Inr chat_id, c1) \<Rightarrow>
             (case keywords of
                None \<Rightarrow> close (Inr (Some chat_id)) (commit c1)
              | Some [] \<Rightarrow> close (Inr (Some chat_id)) (commit c1)
              | Some (k # ks) \<Rightarrow>
                  (case executemany_keywords
                          (map (\<lambda>keyword. (chat_id, lower (strip keyword))) (k # ks)) c1 of
                     (Inl e, c2) \<Rightarrow>
                       if is_sqlite_error e then close (Inr None) c2 else close (Inl e) c2
                   | (Inr u, c2) \<Rightarrow> close (Inr (Some chat_id)) (commit c2)))))"

definition update_character_chat :: "db \<Rightarrow> int \<Rightarrow> (string \<times> string) list \<Rightarrow> bool call" where
  "update_character_chat d chat_id chat_history =
     (let c = sqlite3_connect d
      in case json_dumps (history_value chat_history) of
           None \<Rightarrow> close (Inl TypeError) c
         | Some chat_history_json \<Rightarrow>
        (case execute ''UPDATE CharacterChats SET chat_history = ? WHERE id = ?''
                (prepare_update CharacterChats_schema [''chat_history''])
                [PStr chat_history_json] [PInt chat_id]
                (\<lambda>vs ws fk. update_chats (zip [''chat_history''] vs)
                              (where_and CharacterChats_schema [''id''] ws)) c of
           (Inl e, c1) \<Rightarrow> if is_sqlite_error e then close (Inr False) c1 else close (Inl e) c1
         | (Inr rowcount, c1) \<Rightarrow> close (Inr (rowcount > 0)) (commit c1)))"

definition delete_character_chat :: "db \<Rightarrow> int \<Rightarrow> bool call" where
  "delete_character_chat d chat_id =
     (let c = sqlite3_connect d
      in case execute ''DELETE FROM CharacterChats WHERE id = ?'' None [] [PInt chat_id]
                (\<lambda>vs ws fk d'. Inr (delete_chats fk (where_and CharacterChats_schema [''id''] ws) d')) c of
           (Inl e, c1) \<Rightarrow> if is_sqlite_error e then close (Inr False) c1 else close (Inl e) c1
         | (Inr rowcount, c1) \<Rightarrow> close (Inr (rowcount > 0)) (commit c1))"

subsection \<open>Keywords\<close>

text \<open>
  The statement of \<^verbatim>\<open>fetch_keywords_for_chats\<close> is a chain of one comparison per keyword,
  joined with \<^verbatim>\<open>OR\<close>. A comparison is an expression of depth 2 and every \<^verbatim>\<open>OR\<close> adds
  one level, so that the chain of \<open>n\<close> comparisons has depth \<open>n + 1\<close>: from 1000 keywords
  on the statement does not compile. The rows are read through the index on
  \<^verbatim>\<open>keyword\<close> (line 126), in the order of the keyword and, for equal keywords, of the table;
  \<^verbatim>\<open>DISTINCT\<close> keeps the first occurrence of a chat id.
\<close>

definition SQLITE_MAX_EXPR_DEPTH :: nat where
  "SQLITE_MAX_EXPR_DEPTH = 1000"

definition or_chain_depth :: "nat \<Rightarrow> nat" where
  "or_chain_depth n = n + 1"

definition prepare_or_chain :: "nat \<Rightarrow> exn option" where
  "prepare_or_chain n =
     (if SQLITE_MAX_EXPR_DEPTH < or_chain_depth n
      then Some (OperationalError ''Expression tree is too large (maximum depth 1000)'')
      else None)"

fun text_of :: "sqlval \<Rightarrow> string" where
  "text_of (SText s) = s"
| "text_of v = []"

definition first_distinct :: "'a list \<Rightarrow> 'a list" where
  "first_distinct xs = rev (remdups (rev xs))"

definition fetch_keywords_for_chats :: "db \<Rightarrow> string list \<Rightarrow> pyval list call" where
  "fetch_keywords_for_chats d keywords =
     (if keywords = [] then (Inr [], d, [])
      else
        (let c = sqlite3_connect d
         in case execute (''SELECT DISTINCT chat_id FROM ChatKeywords WHERE ''
                          @ join '' OR '' (replicate (length keywords) ''keyword = ?''))
                   (prepare_or_chain (length keywords)) [] (map PStr keywords)
                   (\<lambda>vs ws fk d'.
                      Inr (d', first_distinct (map (\<lambda>r. col r ''chat_id'')
                                 (sort_key (\<lambda>r. text_of (col r ''keyword''))
                                    (filter (where_or ChatKeywords_schema
                                               (replicate (length keywords) ''keyword'') ws)
                                            (t_rows (ChatKeywords d'))))))) c of
              (Inl e, c1) \<Rightarrow> close (Inr []) c1
            | (Inr rows, c1) \<Rightarrow> close (Inr (map py_of_sql rows)) c1))"

subsection \<open>Search\<close>

text \<open>
  What the full-text engine does with a query is a parameter: \<open>fts_query\<close> parses a MATCH
  expression (\<open>Inl\<close> is the message of a malformed one) into the texts it matches,
  \<open>fts_rank\<close> is the value of the column \<^verbatim>\<open>rank\<close> of a rowid for a query (only its order
  matters), and \<open>sql_where\<close> compiles the WHERE text that \<^verbatim>\<open>search_db\<close> assembles from its
  caller's strings (\<open>Inl\<close> is the message of a text that does not compile) into a condition
  on the joined rows, given the bound query and the index. The names of columns in that text
  are resolved by the model itself (\<open>field_error\<close> below).
\<close>

record engine =
  fts_query :: "string \<Rightarrow> string + (sqlval \<times> sqlval \<Rightarrow> bool)"
  fts_rank :: "string \<Rightarrow> posting list \<Rightarrow> int \<Rightarrow> int"
  sql_where :: "string \<Rightarrow> string + (string \<Rightarrow> string + (posting list \<Rightarrow> row \<Rightarrow> bool))"

text \<open>\<^verbatim>\<open>search_character_chats\<close> returns a pair of a list and a status string,
  \<^verbatim>\<open>search_db\<close> returns a list.\<close>

datatype search_reply = Results "pyval list" | ResultsWithStatus "pyval list" string

definition fts_hits :: "(sqlval \<times> sqlval \<Rightarrow> bool) \<Rightarrow> posting list \<Rightarrow> int list" where
  \<comment> \<open>the rowids the index gives for a MATCH\<close>
  "fts_hits m idx = remdups (map fst (filter (\<lambda>p. m (snd p)) idx))"

definition chat_hit :: "row \<Rightarrow> pyval" where
  \<comment> \<open>\<^verbatim>\<open>SELECT CharacterChats.id, CharacterChats.conversation_name, CharacterChats.chat_history\<close>\<close>
  "chat_hit r =
     dict_of_row [(''id'', col r ''id''), (''conversation_name'', col r ''conversation_name''),
                  (''chat_history'', col r ''chat_history'')]"

definition order_by_rank :: "engine \<Rightarrow> string \<Rightarrow> posting list \<Rightarrow> row list \<Rightarrow> row list" where
  "order_by_rank E q idx rs = sort_key (\<lambda>r. fts_rank E q idx (row_id r)) rs"

definition limit_offset :: "int \<Rightarrow> int \<Rightarrow> 'a list \<Rightarrow> 'a list" where
  \<comment> \<open>\<^verbatim>\<open>LIMIT ? OFFSET ?\<close>: a negative limit is no limit, a negative offset is none\<close>
  "limit_offset lim off xs =
     (let ys = drop (nat off) xs in if lim < 0 then ys else take (nat lim) ys)"

definition match_join ::
  "engine \<Rightarrow> string \<Rightarrow> sqlval list \<Rightarrow> db \<Rightarrow> exn + row list" where
  \<comment> \<open>\<^verbatim>\<open>FROM CharacterChats_fts JOIN CharacterChats ON CharacterChats_fts.rowid = CharacterChats.id
     WHERE CharacterChats_fts MATCH ? [AND CharacterChats.character_id = ?] ORDER BY rank\<close>\<close>
  "match_join E query cid d =
     (case fts_query E query of
        Inl msg \<Rightarrow> Inl (OperationalError msg)
      | Inr m \<Rightarrow>
          Inr (order_by_rank E query (CharacterChats_fts d)
                 (filter (\<lambda>r. row_id r \<in> set (fts_hits m (CharacterChats_fts d))
                              \<and> where_and CharacterChats_schema [''character_id''] cid r)
                         (t_rows (CharacterChats d)))))"

definition search_character_chats :: "engine \<Rightarrow> db \<Rightarrow> string \<Rightarrow> int option \<Rightarrow> search_reply call" where
  "search_character_chats E d query character_id =
     (if strip query = [] then (Inr (ResultsWithStatus [] ''Please enter a search query.''), d, [])
      else
        (let c = sqlite3_connect d
         in case execute
                   (case character_id of
                      Some i \<Rightarrow> ''SELECT ... WHERE CharacterChats_fts MATCH ? AND CharacterChats.character_id = ? ORDER BY rank''
                    | None \<Rightarrow> ''SELECT ... WHERE CharacterChats_fts MATCH ? ORDER BY rank'')
                   None [PStr query] (case character_id of Some i \<Rightarrow> [PInt i] | None \<Rightarrow> [])
                   (\<lambda>vs ws fk d'. case match_join E query ws d' of
                                     Inl e \<Rightarrow> Inl e | Inr rows \<Rightarrow> Inr (d', rows)) c of
              (Inl e, c1) \<Rightarrow>
                close (Inr (ResultsWithStatus [] (''Error occurred during search: '' @ str_exn e))) c1
            | (Inr rows, c1) \<Rightarrow>
                close (Inr (ResultsWithStatus (map chat_hit rows)
                  (''Found '' @ str_int (int (length rows)) @ '' chat(s) matching ''
                   @ [CHR 0x27] @ query @ [CHR 0x27]
                   @ (case character_id of
                        Some i \<Rightarrow> '' for the selected character.''
                      | None \<Rightarrow> '' across all characters.'')))) c1))"

definition where_text :: "string list \<Rightarrow> string \<Rightarrow> string" where
  \<comment> \<open>the WHERE text of \<^verbatim>\<open>search_db\<close> (lines 623 to 632)\<close>
  "where_text flds where_clause =
     join '' AND '' flds @ '' MATCH ?''
     @ (if where_clause \<noteq> [] then '' AND ('' @ where_clause @ '')'' else [])"

text \<open>
  The fields of \<^verbatim>\<open>search_db\<close> are names in the join of \<^verbatim>\<open>CharacterChats_fts\<close> and
  \<^verbatim>\<open>CharacterChats\<close>. SQLite resolves a name without regard to the case of its ASCII
  letters. The full-text table has its two columns, the hidden columns named after the table
  and \<^verbatim>\<open>rank\<close>, and the rowid; the table of chats has its columns and the rowid. A field
  that is an identifier and the name of a column of both tables is ambiguous; one that is the
  name of no column does not compile either (``no such column'', or a syntax error when it is
  a keyword), except for the words that are values by themselves. What a field that compiles
  means, and every field that is not an identifier, is left to \<open>sql_where\<close>.
\<close>

definition ascii_lower :: "string \<Rightarrow> string" where
  "ascii_lower s =
     map (\<lambda>c. if (65::nat) \<le> of_char c \<and> of_char c \<le> (90::nat)
               then char_of (of_char c + (32::nat)) else c) s"

definition is_identifier :: "string \<Rightarrow> bool" where
  "is_identifier s =
     (case s of
        [] \<Rightarrow> False
      | c # cs \<Rightarrow>
          c \<in> set ''abcdefghijklmnopqrstuvwxyzABCDEFGHIJKLMNOPQRSTUVWXYZ_''
          \<and> list_all (\<lambda>x. x \<in> set ''abcdefghijklmnopqrstuvwxyzABCDEFGHIJKLMNOPQRSTUVWXYZ_0123456789'')
                       cs)"

definition rowid_aliases :: "string list" where
  "rowid_aliases = [''rowid'', ''oid'', ''_rowid_'']"

definition chats_names :: "string list" where
  "chats_names = map fst (tbl_columns CharacterChats_schema) @ rowid_aliases"

definition fts_names :: "string list" where
  "fts_names = [''conversation_name'', ''chat_history'', ''characterchats_fts'', ''rank'']
               @ rowid_aliases"

definition value_words :: "string list" where
  "value_words = [''true'', ''false'', ''null'', ''current_date'', ''current_time'',
                  ''current_timestamp'']"

definition field_error :: "string \<Rightarrow> exn option" where
  "field_error f =
     (let n = ascii_lower f;
          k = count_list chats_names n + count_list fts_names n
      in if is_identifier f \<and> k = 2
           then Some (OperationalError (''ambiguous column name: '' @ f))
         else if is_identifier f \<and> k = 0 \<and> n \<notin> set value_words
           then Some (OperationalError (''no such column: '' @ f))
         else None)"

fun fields_error :: "string list \<Rightarrow> exn option" where
  "fields_error [] = None"
| "fields_error (f # fs) =
     (case field_error f of Some e \<Rightarrow> Some e | None \<Rightarrow> fields_error fs)"

definition compile_where ::
  "engine \<Rightarrow> string list \<Rightarrow> string \<Rightarrow>
   exn + (string \<Rightarrow> string + (posting list \<Rightarrow> row \<Rightarrow> bool))" where
  "compile_where E flds where_clause =
     (case fields_error flds of
        Some e \<Rightarrow> Inl e
      | None \<Rightarrow>
          (case sql_where E (where_text flds where_clause) of
             Inl msg \<Rightarrow> Inl (OperationalError msg)
           | Inr compiled \<Rightarrow> Inr compiled))"

definition select_where ::
  "engine \<Rightarrow> string list \<Rightarrow> string \<Rightarrow> string \<Rightarrow> db \<Rightarrow> exn + row list" where
  \<comment> \<open>the statement of \<^verbatim>\<open>search_db\<close> up to \<^verbatim>\<open>ORDER BY rank\<close>\<close>
  "select_where E flds where_clause query d =
     (case compile_where E flds where_clause of
        Inl e \<Rightarrow> Inl e
      | Inr compiled \<Rightarrow>
          (case compiled query of
             Inl msg \<Rightarrow> Inl (OperationalError msg)
           | Inr cond \<Rightarrow>
               Inr (order_by_rank E query (CharacterChats_fts d)
                      (filter (cond (CharacterChats_fts d)) (t_rows (CharacterChats d))))))"

definition search_db ::
  "engine \<Rightarrow> db \<Rightarrow> string \<Rightarrow> string list \<Rightarrow> string \<Rightarrow> int \<Rightarrow> int \<Rightarrow> search_reply call" where
  "search_db E d query flds where_clause page results_per_page =
     (if strip query = [] then (Inr (Results []), d, [])
      else
        (let c = sqlite3_connect d;
             offset = (page - 1) * results_per_page
         in case execute
                   (''SELECT ... FROM CharacterChats_fts JOIN CharacterChats ON CharacterChats_fts.rowid = CharacterChats.id WHERE ''
                    @ where_text flds where_clause @ '' ORDER BY rank LIMIT ? OFFSET ?'')
                   (case compile_where E flds where_clause of
                      Inl e \<Rightarrow> Some e | Inr compiled \<Rightarrow> None)
                   [] [PStr query, PInt results_per_page, PInt offset]
                   (\<lambda>vs ws fk d'. case select_where E flds where_clause query d' of
                                     Inl e \<Rightarrow> Inl e
                                   | Inr rows \<Rightarrow> Inr (d', limit_offset results_per_page offset rows)) c of
              (Inl e, c1) \<Rightarrow> close (Inr (Results [])) c1
            | (Inr rows, c1) \<Rightarrow> close (Inr (Results (map chat_hit rows))) c1))"

definition hit_id :: "pyval \<Rightarrow> pyval" where
  \<comment> \<open>\<^verbatim>\<open>result['id']\<close>\<close>
  "hit_id h = (case h of PDict kvs \<Rightarrow> dict_get kvs ''id'' PNone | _ \<Rightarrow> PNone)"

text \<open>\<^verbatim>\<open>perform_full_text_search_chat\<close> is the one caller of \<^verbatim>\<open>search_db\<close> in the
  repository: it searches the field \<^verbatim>\<open>content\<close>, filters on \<^verbatim>\<open>media_id\<close> and reads
  \<^verbatim>\<open>result['content']\<close>; every exception gives the empty list.\<close>

fun filter_results :: "int list \<Rightarrow> pyval list \<Rightarrow> exn + pyval list" where
  "filter_results relevant_chat_ids [] = Inr []"
| "filter_results relevant_chat_ids (result # rest) =
     (if hit_id result \<in> set (map PInt relevant_chat_ids) then
        (case subscript (case result of PDict kvs \<Rightarrow> kvs | _ \<Rightarrow> []) ''content'' of
           Inl e \<Rightarrow> Inl e
         | Inr content \<Rightarrow>
             (case filter_results relevant_chat_ids rest of
                Inl e \<Rightarrow> Inl e
              | Inr out \<Rightarrow>
                  Inr (PDict [(''content'', content),
                              (''metadata'', PDict [(''media_id'', hit_id result)])] # out)))
      else filter_results relevant_chat_ids rest)"

definition perform_full_text_search_chat ::
  "engine \<Rightarrow> db \<Rightarrow> string \<Rightarrow> int list \<Rightarrow> int \<Rightarrow> int \<Rightarrow> pyval list call" where
  "perform_full_text_search_chat E d query relevant_chat_ids page results_per_page =
     (let joined = join '' OR '' (map (\<lambda>chat_id. ''media_id = '' @ str_int chat_id) relevant_chat_ids);
          where_clause = (if joined = [] then ''1'' else joined)
      in case search_db E d query [''content''] where_clause page results_per_page of
           (Inl e, d', lg) \<Rightarrow> (Inr [], d', lg)
         | (Inr (Results fts_results), d', lg) \<Rightarrow>
             (case filter_results relevant_chat_ids fts_results of
                Inl e \<Rightarrow> (Inr [], d', lg)
              | Inr filtered \<Rightarrow> (Inr filtered, d', lg))
         | (Inr (ResultsWithStatus fts_results status), d', lg) \<Rightarrow> (Inr [], d', lg))"

text \<open>
  An instance of the parameters, to evaluate the model on concrete stores: a query matches
  the texts that contain it, all ranks are equal, and the one WHERE text that compiles is
  \<^verbatim>\<open>CharacterChats_fts MATCH ?\<close>.
\<close>

fun is_prefix :: "string \<Rightarrow> string \<Rightarrow> bool" where
  "is_prefix [] ys = True"
| "is_prefix (x # xs) [] = False"
| "is_prefix (x # xs) (y # ys) = (x = y \<and> is_prefix xs ys)"

fun contains :: "string \<Rightarrow> string \<Rightarrow> bool" where
  "contains [] q = (q = [])"
| "contains (y # ys) q = (is_prefix q (y # ys) \<or> contains ys q)"

fun text_contains :: "string \<Rightarrow> sqlval \<Rightarrow> bool" where
  "text_contains q (SText s) = contains s q"
| "text_contains q v = False"

definition substring_match :: "string \<Rightarrow> sqlval \<times> sqlval \<Rightarrow> bool" where
  "substring_match q doc = (text_contains q (fst doc) \<or> text_contains q (snd doc))"

definition substring_engine :: engine where
  "substring_engine =
     \<lparr> fts_query = (\<lambda>q. Inr (substring_match q)),
       fts_rank = (\<lambda>q idx r. 0),
       sql_where = (\<lambda>txt. if txt = ''CharacterChats_fts MATCH ?''
                           then Inr (\<lambda>q. Inr (\<lambda>idx r. row_id r \<in> set (fts_hits (substring_match q) idx)))
                           else Inl ''syntax error'') \<rparr>"

text \<open>The linear scan of the table that the index is compared with: the rows of
  \<^verbatim>\<open>CharacterChats\<close> whose own conversation name or history the query matches.\<close>

definition linear_scan :: "engine \<Rightarrow> db \<Rightarrow> string \<Rightarrow> exn + row list" where
  "linear_scan E d query =
     (case fts_query E query of
        Inl msg \<Rightarrow> Inl (OperationalError msg)
      | Inr m \<Rightarrow>
          Inr (filter (\<lambda>r. m (col r ''conversation_name'', col r ''chat_history''))
                      (t_rows (CharacterChats d))))"

subsection \<open>Reading a reply\<close>

definition reply_rows :: "search_reply call \<Rightarrow> pyval list" where
  "reply_rows r = (case fst r of
                     Inr (Results xs) \<Rightarrow> xs
                   | Inr (ResultsWithStatus xs s) \<Rightarrow> xs
                   | Inl e \<Rightarrow> [])"

definition page_ids :: "engine \<Rightarrow> db \<Rightarrow> string \<Rightarrow> string list \<Rightarrow> string \<Rightarrow> nat \<Rightarrow> pyval list" where
  \<comment> \<open>the ids on page \<open>p\<close> of \<^verbatim>\<open>search_db\<close> with five results per page\<close>
  "page_ids E d query flds where_clause p =
     map hit_id (reply_rows (search_db E d query flds where_clause (int p) 5))"

subsection \<open>Stores for evaluation\<close>

text \<open>The stores that the functions themselves build from an empty database: the card
  ``Ada'', then one chat with two keywords, then that chat updated, or the card deleted;
  and the card with seven chats.\<close>

definition ada_card :: dict where
  "ada_card = [(''name'', PStr ''Ada''), (''image'', PNone)]"

definition store_card :: db where
  "store_card = fst (snd (add_character_card (empty_db ''t0'') ada_card))"

definition store_chat :: db where
  "store_chat =
     fst (snd (add_character_chat store_card 1 ''intro'' [(''user'', ''hi''), (''Ada'', ''hello'')]
                 (Some ['' Greeting '', ''demo'']) False))"

definition store_updated :: db where
  "store_updated = fst (snd (update_character_chat store_chat 1 [(''user'', ''bye'')]))"

definition store_deleted :: db where
  "store_deleted = fst (snd (delete_character_card store_chat 1))"

definition store_seven :: db where
  "store_seven =
     foldl (\<lambda>d n. fst (snd (add_character_chat d 1 n [(''user'', ''hello'')] None False)))
           store_card [''c1'', ''c2'', ''c3'', ''c4'', ''c5'', ''c6'', ''c7'']"

subsection \<open>Reading a card back\<close>

definition py_of_id :: "int option \<Rightarrow> pyval" where
  \<comment> \<open>the value \<^verbatim>\<open>add_character_card\<close> returns, as the argument of the next call\<close>
  "py_of_id r = (case r of None \<Rightarrow> PNone | Some i \<Rightarrow> PInt i)"

definition get_after_add :: "db \<Rightarrow> dict \<Rightarrow> pyval call" where
  \<comment> \<open>\<^verbatim>\<open>get_character_card_by_id(add_character_card(card_data))\<close>\<close>
  "get_after_add d card_data =
     (case add_character_card d card_data of
        (Inl e, d', lg) \<Rightarrow> (Inl e, d', lg)
      | (Inr r, d', lg) \<Rightarrow>
          (case get_character_card_by_id d' (py_of_id r) of
             (r', d'', lg') \<Rightarrow> (r', d'', lg @ lg')))"

definition tagged_card :: dict where
  "tagged_card = [(''name'', PStr ''Ada''), (''alternate_greetings'', PList [PStr ''hi'']),
                  (''tags'', PList [PStr ''x'']), (''extensions'', PDict [(''k'', PInt 1)])]"

section \<open>Properties\<close>

subsection \<open>Auxiliary facts\<close>

lemma inj_on_py_of_sql: "inj_on py_of_sql A"
proof (rule inj_onI)
  fix x y assume "py_of_sql x = py_of_sql y"
  then show "x = y" by (cases x; cases y) simp_all
qed

lemma bind_params_PStr: "bind_params (map PStr ks) = Inr (map SText ks)"
  by (induction ks) simp_all

lemma where_eq_keyword:
  "where_eq ChatKeywords_schema ''keyword'' (SText k) r = (col r ''keyword'' = SText k)"
  by (simp add: where_eq_def column_affinity_def ChatKeywords_schema_def)

lemma where_or_keyword:
  "where_or ChatKeywords_schema (replicate (length ks) ''keyword'') (map SText ks) r
   = (col r ''keyword'' \<in> SText ` set ks)"
  by (induction ks) (auto simp: where_or_def where_eq_keyword)

lemma dropWhile_all_iff: "(\<forall>x\<in>set (dropWhile P xs). P x) \<longleftrightarrow> (\<forall>x\<in>set xs. P x)"
  by (induction xs) auto

lemma strip_empty_iff: "strip q = [] \<longleftrightarrow> list_all py_isspace q"
  by (simp add: strip_def dropWhile_eq_Nil_conv dropWhile_all_iff list_all_iff)

subsection \<open>Keyword lookup\<close>

lemma set_first_distinct: "set (first_distinct xs) = set xs"
  by (simp add: first_distinct_def)

lemma distinct_first_distinct: "distinct (first_distinct xs)"
  by (simp add: first_distinct_def)

text \<open>
  With fewer than 1000 keywords \<^verbatim>\<open>fetch_keywords_for_chats\<close> returns, without duplicates,
  exactly the chat ids of the rows of \<^verbatim>\<open>ChatKeywords\<close> whose keyword equals one of the given
  keywords, and leaves the store as it is; for the empty list it returns the empty list
  without opening a connection.
\<close>

lemma fetch_keywords_for_chats_below_limit:
  assumes "length keywords < 1000"
  shows "\<exists>ids lg. fetch_keywords_for_chats d keywords = (Inr ids, d, lg)
      \<and> distinct ids
      \<and> set ids = (\<lambda>r. py_of_sql (col r ''chat_id''))
                     ` {r \<in> set (t_rows (ChatKeywords d)). col r ''keyword'' \<in> SText ` set keywords}
      \<and> (keywords = [] \<longrightarrow> lg = [])"
proof (cases "keywords = []")
  case True
  then show ?thesis by (simp add: fetch_keywords_for_chats_def)
next
  case False
  have prep: "prepare_or_chain (length keywords) = None"
    using assms by (simp add: prepare_or_chain_def or_chain_depth_def SQLITE_MAX_EXPR_DEPTH_def)
  from False show ?thesis
    by (auto simp: fetch_keywords_for_chats_def execute_def logged_def close_def sqlite3_connect_def
          prep bind_params_PStr where_or_keyword distinct_map inj_on_py_of_sql image_image
          set_first_distinct distinct_first_distinct)
qed

text \<open>From 1000 keywords on the statement does not compile and the result is empty.\<close>

lemma fetch_keywords_for_chats_from_limit:
  assumes "1000 \<le> length keywords"
  shows "fst (fetch_keywords_for_chats d keywords) = Inr []
         \<and> fst (snd (fetch_keywords_for_chats d keywords)) = d"
proof -
  have "keywords \<noteq> []" using assms by auto
  moreover have "prepare_or_chain (length keywords)
                 = Some (OperationalError ''Expression tree is too large (maximum depth 1000)'')"
    using assms by (simp add: prepare_or_chain_def or_chain_depth_def SQLITE_MAX_EXPR_DEPTH_def)
  ultimately show ?thesis
    by (simp add: fetch_keywords_for_chats_def execute_def logged_def close_def
          sqlite3_connect_def)
qed

text \<open>
  Claim C9 says that \<^verbatim>\<open>fetch_keywords_for_chats(keywords)\<close> returns exactly the chat ids that
  have one of the given keywords. In the store where chat 1 has the keyword ``demo'', the
  lookup of \<^verbatim>\<open>['demo']\<close> returns chat 1; the lookup of a list of 1000 keywords, each of them
  ``demo'', builds a chain of 1000 comparisons, which SQLite refuses as too deep: the
  \<^verbatim>\<open>OperationalError\<close> is caught and the empty list returned.
\<close>

theorem fetch_keywords_for_chats_thousand:
  "map (\<lambda>r. (col r ''chat_id'', col r ''keyword'')) (t_rows (ChatKeywords store_chat))
     = [(SInt 1, SText ''greeting''), (SInt 1, SText ''demo'')]
   \<and> fst (fetch_keywords_for_chats store_chat [''demo'']) = Inr [PInt 1]
   \<and> fst (fetch_keywords_for_chats store_chat [''other'', ''demo'', ''greeting'']) = Inr [PInt 1]
   \<and> fst (fetch_keywords_for_chats store_chat (replicate 1000 ''demo'')) = Inr []"
proof -
  have rows: "map (\<lambda>r. (col r ''chat_id'', col r ''keyword'')) (t_rows (ChatKeywords store_chat))
              = [(SInt 1, SText ''greeting''), (SInt 1, SText ''demo'')]"
    by code_simp
  have one: "fst (fetch_keywords_for_chats store_chat [''demo'']) = Inr [PInt 1]"
    by code_simp
  have three: "fst (fetch_keywords_for_chats store_chat [''other'', ''demo'', ''greeting''])
               = Inr [PInt 1]"
    by code_simp
  have thousand: "fst (fetch_keywords_for_chats store_chat (replicate 1000 ''demo'')) = Inr []"
    using fetch_keywords_for_chats_from_limit [of "replicate 1000 ''demo''" store_chat]
    by (simp only: length_replicate order_refl simp_thms)
  from rows one three thousand show ?thesis by blast
qed

subsection \<open>Reading a card by id or by value\<close>

text \<open>
  Claim C10. Called with a dictionary, \<^verbatim>\<open>get_character_card_by_id\<close> returns that dictionary
  unchanged: it opens and closes a connection and runs no statement on it. Called with a value
  that is neither an integer (a boolean is one) nor a dictionary, it returns \<^verbatim>\<open>None\<close>.
\<close>

theorem get_character_card_by_id_passthrough:
  "get_character_card_by_id d (PDict cd) = (Inr (PDict cd), d, [Connect, Close])
   \<and> get_character_card_by_id d PNone = (Inr PNone, d, [Connect, Close])
   \<and> get_character_card_by_id d (PStr s) = (Inr PNone, d, [Connect, Close])
   \<and> get_character_card_by_id d (PBytes b) = (Inr PNone, d, [Connect, Close])
   \<and> get_character_card_by_id d (PList xs) = (Inr PNone, d, [Connect, Close])"
  by (simp add: close_def sqlite3_connect_def)

subsection \<open>Blank queries\<close>

text \<open>
  Claim C8, as amended. For a query that is empty or consists of whitespace only,
  \<^verbatim>\<open>search_character_chats\<close> returns the empty list with the status
  \<^verbatim>\<open>Please enter a search query.\<close> and \<^verbatim>\<open>search_db\<close> returns the empty list; neither
  opens a connection, so the full-text index is not read.
\<close>

theorem search_blank_query:
  "list_all py_isspace query \<Longrightarrow>
     search_character_chats E d query character_id
       = (Inr (ResultsWithStatus [] ''Please enter a search query.''), d, [])
     \<and> search_db E d query flds where_clause page results_per_page = (Inr (Results []), d, [])"
  by (simp add: search_character_chats_def search_db_def strip_empty_iff)

theorem search_blank_query_witness:
  "list_all py_isspace [CHR 0x20, CHR 0x09]
   \<and> search_character_chats substring_engine (empty_db ''t0'') [CHR 0x20, CHR 0x09] None
       = (Inr (ResultsWithStatus [] ''Please enter a search query.''), empty_db ''t0'', [])
   \<and> search_db substring_engine (empty_db ''t0'') [CHR 0x20, CHR 0x09] [''CharacterChats_fts''] [] 1 5
       = (Inr (Results []), empty_db ''t0'', [])"
proof -
  have h: "list_all py_isspace [CHR 0x20, CHR 0x09]" by (simp add: py_isspace_def)
  show ?thesis using h search_blank_query [OF h] by simp
qed

text \<open>
  Claim C8 as stated asks for a status string from \<^verbatim>\<open>search_db\<close> too. \<^verbatim>\<open>search_db\<close>
  returns a list and nothing else: for the query of a space and a tab its reply is not a pair
  of the empty list and a status.
\<close>

theorem search_db_blank_query_counterexample:
  "\<not> (\<exists>status. fst (search_db substring_engine (empty_db ''t0'') [CHR 0x20, CHR 0x09]
                        [''CharacterChats_fts''] [] 1 5) = Inr (ResultsWithStatus [] status))"
  by (simp add: search_db_def strip_def py_isspace_def)

subsection \<open>Pagination\<close>

lemma concat_pages:
  "concat (map (\<lambda>p. take n (drop ((p - 1) * n) xs)) [1..<Suc k]) = take (k * n) xs"
proof (induction k)
  case 0
  then show ?case by simp
next
  case (Suc k)
  have "take (k * n) xs @ take n (drop (k * n) xs) = take (k * n + n) xs"
    by (simp add: take_add)
  with Suc show ?case by (simp add: add.commute)
qed

lemma slices_disjoint:
  assumes "distinct xs" and "a + n \<le> b"
  shows "set (take n (drop a xs)) \<inter> set (take m (drop b xs)) = {}"
proof -
  have d: "set (take (a + n) xs) \<inter> set (drop (a + n) xs) = {}"
    using assms(1) by (metis append_take_drop_id distinct_append)
  have l: "set (take n (drop a xs)) \<subseteq> set (take (a + n) xs)"
    by (metis add.commute set_drop_subset take_drop)
  have r: "set (take m (drop b xs)) \<subseteq> set (drop (a + n) xs)"
    using assms(2) by (meson order_trans set_drop_subset_set_drop set_take_subset)
  from d l r show ?thesis by blast
qed

lemma distinct_map_insort_key:
  "distinct (map f (insort_key k x xs)) = (f x \<notin> f ` set xs \<and> distinct (map f xs))"
  by (induction xs) (auto simp: set_insort_key)

lemma distinct_map_sort_key: "distinct (map f (sort_key k xs)) = distinct (map f xs)"
  by (induction xs) (simp_all add: distinct_map_insort_key)

lemma hit_id_chat_hit: "hit_id (chat_hit r) = py_of_sql (col r ''id'')"
  by (simp add: hit_id_def chat_hit_def dict_of_row_def dict_get_def)

lemma distinct_hit_ids:
  assumes "distinct (map row_id rs)"
  shows "distinct (map (\<lambda>r. py_of_sql (col r ''id'')) rs)"
proof -
  have "inj_on row_id (set rs)" and "distinct rs" using assms by (auto simp: distinct_map)
  then have "inj_on (\<lambda>r. col r ''id'') (set rs)"
    by (auto simp: inj_on_def row_id_def)
  then have "inj_on (\<lambda>r. py_of_sql (col r ''id'')) (set rs)"
    using inj_on_py_of_sql [of UNIV] by (simp add: inj_on_def)
  with \<open>distinct rs\<close> show ?thesis by (simp add: distinct_map)
qed

lemma select_where_distinct:
  assumes "select_where E flds wc query d = Inr full"
      and "distinct (map row_id (t_rows (CharacterChats d)))"
  shows "distinct (map row_id full)"
  using assms
  by (auto simp: select_where_def order_by_rank_def distinct_map_sort_key distinct_map_filter
           split: sum.splits)

lemma search_db_page:
  assumes "strip query \<noteq> []"
      and "select_where E flds wc query d = Inr full"
      and "- (2 ^ 63) \<le> rpp" and "rpp < 2 ^ 63"
      and "- (2 ^ 63) \<le> (page - 1) * rpp" and "(page - 1) * rpp < 2 ^ 63"
  shows "reply_rows (search_db E d query flds wc page rpp)
         = map chat_hit (limit_offset rpp ((page - 1) * rpp) full)"
  using assms
  by (auto simp: search_db_def select_where_def execute_def logged_def close_def
        sqlite3_connect_def reply_rows_def Let_def split: sum.splits)

lemma pages_cover: "((n + 4) div 5) * 5 \<ge> (n::nat)"
  by presburger

lemma last_page_offset: "1 \<le> p \<Longrightarrow> p \<le> (n + 4) div 5 \<Longrightarrow> (p - 1) * 5 < (n::nat)"
  by presburger

text \<open>
  When the statement of \<^verbatim>\<open>search_db\<close> compiles, a page holds the rows that the statement
  selects, in the order of \<^verbatim>\<open>rank\<close>, from offset \<open>(page - 1) * results_per_page\<close> on, at
  most \<open>results_per_page\<close> of them; with five results per page the pages 1 to
  \<open>\<lceil>N / 5\<rceil>\<close> of \<open>N\<close> selected rows have pairwise disjoint ids and the union of their
  ids is the set of the ids of all \<open>N\<close> rows.
\<close>

lemma search_db_pages_partition:
  assumes nonblank: "\<not> list_all py_isspace query"
      and full: "select_where E flds where_clause query d = Inr full"
      and keys: "distinct (map row_id (t_rows (CharacterChats d)))"
      and size: "int (length full) < 2 ^ 63"
  shows "(0 \<le> results_per_page \<and> results_per_page < 2 ^ 63
            \<and> 0 \<le> (page - 1) * results_per_page \<and> (page - 1) * results_per_page < 2 ^ 63
          \<longrightarrow> reply_rows (search_db E d query flds where_clause page results_per_page)
              = map chat_hit (take (nat results_per_page)
                                (drop (nat ((page - 1) * results_per_page)) full)))
       \<and> (\<forall>p \<in> {1 .. (length full + 4) div 5}. \<forall>q \<in> {1 .. (length full + 4) div 5}.
             p \<noteq> q \<longrightarrow> set (page_ids E d query flds where_clause p)
                         \<inter> set (page_ids E d query flds where_clause q) = {})
       \<and> (\<Union>p \<in> {1 .. (length full + 4) div 5}. set (page_ids E d query flds where_clause p))
           = set (map hit_id (map chat_hit full))"
proof -
  let ?k = "(length full + 4) div 5"
  let ?ids = "map (\<lambda>r. py_of_sql (col r ''id'')) full"
  have strip: "strip query \<noteq> []" using nonblank by (simp add: strip_empty_iff)
  have general: "reply_rows (search_db E d query flds where_clause pg rpp)
                 = map chat_hit (take (nat rpp) (drop (nat ((pg - 1) * rpp)) full))"
    if "0 \<le> rpp" "rpp < 2 ^ 63" "0 \<le> (pg - 1) * rpp" "(pg - 1) * rpp < 2 ^ 63" for pg rpp
  proof -
    have "reply_rows (search_db E d query flds where_clause pg rpp)
          = map chat_hit (limit_offset rpp ((pg - 1) * rpp) full)"
      using that by (intro search_db_page [OF strip full]) simp_all
    then show ?thesis using that by (simp add: limit_offset_def)
  qed
  have page: "page_ids E d query flds where_clause p = take 5 (drop ((p - 1) * 5) ?ids)"
    if "p \<in> {1 .. ?k}" for p
  proof -
    from that have lt: "(p - 1) * 5 < length full" by (intro last_page_offset) simp_all
    have off: "(int p - 1) * 5 = int ((p - 1) * 5)" using that by (simp add: of_nat_diff)
    have "(int p - 1) * 5 < 2 ^ 63" using lt size unfolding off by linarith
    moreover have "0 \<le> (int p - 1) * 5" unfolding off by simp
    ultimately have "reply_rows (search_db E d query flds where_clause (int p) 5)
          = map chat_hit (take (nat 5) (drop (nat ((int p - 1) * 5)) full))"
      by (intro general) simp_all
    moreover have "nat ((int p - 1) * 5) = (p - 1) * 5" unfolding off by simp
    ultimately show ?thesis
      by (simp add: page_ids_def take_map drop_map hit_id_chat_hit comp_def)
  qed
  have dist: "distinct ?ids"
    by (rule distinct_hit_ids [OF select_where_distinct [OF full keys]])
  have disjoint: "set (page_ids E d query flds where_clause p)
                  \<inter> set (page_ids E d query flds where_clause q) = {}"
    if "p \<in> {1 .. ?k}" "q \<in> {1 .. ?k}" "p \<noteq> q" for p q
  proof (cases "p < q")
    case True
    then have "(p - 1) * 5 + 5 \<le> (q - 1) * 5" using that by auto
    then show ?thesis using slices_disjoint [OF dist] that by (simp add: page)
  next
    case False
    then have "(q - 1) * 5 + 5 \<le> (p - 1) * 5" using that by auto
    then have "set (take 5 (drop ((q - 1) * 5) ?ids)) \<inter> set (take 5 (drop ((p - 1) * 5) ?ids)) = {}"
      by (rule slices_disjoint [OF dist])
    then show ?thesis using that by (simp add: page Int_commute)
  qed
  have "(\<Union>p \<in> {1 .. ?k}. set (page_ids E d query flds where_clause p))
        = (\<Union>p \<in> {1 .. ?k}. set (take 5 (drop ((p - 1) * 5) ?ids)))"
    using page by simp
  also have "\<dots> = set (concat (map (\<lambda>p. take 5 (drop ((p - 1) * 5) ?ids)) [1..<Suc ?k]))"
    by (simp add: atLeastAtMost_upt)
  also have "\<dots> = set (take (?k * 5) ?ids)" by (simp only: concat_pages)
  also have "\<dots> = set ?ids" using pages_cover [of "length full"] by simp
  finally have union: "(\<Union>p \<in> {1 .. ?k}. set (page_ids E d query flds where_clause p))
                       = set (map hit_id (map chat_hit full))"
    by (simp add: hit_id_chat_hit comp_def)
  from general disjoint union show ?thesis by blast
qed

lemma search_db_pages_partition_example:
  "\<not> list_all py_isspace ''hello''
   \<and> select_where substring_engine [''CharacterChats_fts''] [] ''hello'' store_seven
       = Inr (t_rows (CharacterChats store_seven))
   \<and> distinct (map row_id (t_rows (CharacterChats store_seven)))
   \<and> length (t_rows (CharacterChats store_seven)) = 7
   \<and> page_ids substring_engine store_seven ''hello'' [''CharacterChats_fts''] [] 1
       = [PInt 1, PInt 2, PInt 3, PInt 4, PInt 5]
   \<and> page_ids substring_engine store_seven ''hello'' [''CharacterChats_fts''] [] 2
       = [PInt 6, PInt 7]
   \<and> set (page_ids substring_engine store_seven ''hello'' [''CharacterChats_fts''] [] 1)
       \<inter> set (page_ids substring_engine store_seven ''hello'' [''CharacterChats_fts''] [] 2) = {}
   \<and> set (page_ids substring_engine store_seven ''hello'' [''CharacterChats_fts''] [] 1)
       \<union> set (page_ids substring_engine store_seven ''hello'' [''CharacterChats_fts''] [] 2)
       = set (map hit_id (map chat_hit (t_rows (CharacterChats store_seven))))"
proof -
  let ?full = "t_rows (CharacterChats store_seven)"
  have h1: "\<not> list_all py_isspace ''hello''" by (simp add: py_isspace_def)
  have h2: "select_where substring_engine [''CharacterChats_fts''] [] ''hello'' store_seven
            = Inr ?full"
    by code_simp
  have h3: "distinct (map row_id ?full)" by code_simp
  have len: "length ?full = 7" by code_simp
  have h4: "int (length ?full) < 2 ^ 63" unfolding len by simp
  have p1: "page_ids substring_engine store_seven ''hello'' [''CharacterChats_fts''] [] 1
            = [PInt 1, PInt 2, PInt 3, PInt 4, PInt 5]"
    by code_simp
  have p2: "page_ids substring_engine store_seven ''hello'' [''CharacterChats_fts''] [] 2
            = [PInt 6, PInt 7]"
    by code_simp
  have k: "{1 .. (length ?full + 4) div 5} = {1, 2::nat}" unfolding len by auto
  note pag = search_db_pages_partition [OF h1 h2 h3 h4, of 5 1, unfolded k]
  from pag have "set (page_ids substring_engine store_seven ''hello'' [''CharacterChats_fts''] [] 1)
       \<inter> set (page_ids substring_engine store_seven ''hello'' [''CharacterChats_fts''] [] 2) = {}"
    by auto
  moreover from pag have
    "set (page_ids substring_engine store_seven ''hello'' [''CharacterChats_fts''] [] 1)
       \<union> set (page_ids substring_engine store_seven ''hello'' [''CharacterChats_fts''] [] 2)
     = set (map hit_id (map chat_hit ?full))"
    by auto
  ultimately show ?thesis using h1 h2 h3 len p1 p2 by blast
qed

text \<open>A field that does not resolve gives the empty list on every page, whatever the engine,
  the store, the query and the page.\<close>

lemma fields_error_member:
  "f \<in> set flds \<Longrightarrow> field_error f = Some e \<Longrightarrow> \<exists>e'. fields_error flds = Some e'"
  by (induction flds) (auto split: option.splits)

lemma search_db_field_error:
  assumes "f \<in> set flds" and "field_error f = Some e"
  shows "fst (search_db E d query flds where_clause page results_per_page) = Inr (Results [])"
proof -
  obtain e' where "fields_error flds = Some e'"
    using fields_error_member [OF assms] by blast
  then show ?thesis
    by (simp add: search_db_def execute_def logged_def close_def sqlite3_connect_def
          compile_where_def Let_def)
qed

lemma field_error_content: "field_error ''content'' = Some (OperationalError ''no such column: content'')"
  by code_simp

lemma field_error_chat_history:
  "field_error ''chat_history'' = Some (OperationalError ''ambiguous column name: chat_history'')"
  by code_simp

lemma field_error_conversation_name:
  "field_error ''conversation_name''
   = Some (OperationalError ''ambiguous column name: conversation_name'')"
  by code_simp

lemma field_error_fts_table: "field_error ''CharacterChats_fts'' = None"
  by code_simp

text \<open>
  Claim C7 says that the pages 1 to \<open>\<lceil>N / 5\<rceil>\<close> of a search that matches \<open>N\<close> chats are
  pairwise disjoint and that the union of their ids is the set of the \<open>N\<close> chats.
  \<^verbatim>\<open>search_db\<close> puts its fields into the WHERE text as they are.
  \<^verbatim>\<open>perform_full_text_search_chat\<close>, its one caller, passes the field \<^verbatim>\<open>content\<close>, which is
  no column of the join: the statement does not compile, the error is caught and every page is
  empty. The columns \<^verbatim>\<open>conversation_name\<close> and \<^verbatim>\<open>chat_history\<close> are ambiguous in the join,
  with the same result. In the store with seven chats whose history contains ``hello'',
  \<^verbatim>\<open>search_character_chats\<close> finds the seven chats; the pages 1 and 2 of \<^verbatim>\<open>search_db\<close>
  for the field \<^verbatim>\<open>content\<close> and for the field \<^verbatim>\<open>chat_history\<close> are empty, and so is the
  result of \<^verbatim>\<open>perform_full_text_search_chat\<close>.
\<close>

theorem search_db_pages_empty_for_column_names:
  "map hit_id (reply_rows (search_character_chats substring_engine store_seven ''hello'' None))
     = [PInt 1, PInt 2, PInt 3, PInt 4, PInt 5, PInt 6, PInt 7]
   \<and> page_ids substring_engine store_seven ''hello'' [''content''] [] 1 = []
   \<and> page_ids substring_engine store_seven ''hello'' [''content''] [] 2 = []
   \<and> page_ids substring_engine store_seven ''hello'' [''chat_history''] [] 1 = []
   \<and> page_ids substring_engine store_seven ''hello'' [''chat_history''] [] 2 = []
   \<and> fst (perform_full_text_search_chat substring_engine store_seven ''hello''
             [1, 2, 3, 4, 5, 6, 7] 1 5) = Inr []"
  by code_simp

subsection \<open>Updating a card\<close>

text \<open>
  Claim C6 says that \<^verbatim>\<open>update_character_card\<close> reports false without raising when the id
  is unknown or a uniqueness constraint fails, and true after an update. The statement of
  \<^verbatim>\<open>update_character_card\<close> (line 361) sets the column \<^verbatim>\<open>first_message\<close>; the table
  \<^verbatim>\<open>CharacterCards\<close> (lines 54 to 72) has the column \<^verbatim>\<open>first_mes\<close>, which
  \<^verbatim>\<open>add_character_card\<close> uses. The statement does not compile, the
  \<^verbatim>\<open>OperationalError\<close> is not an \<^verbatim>\<open>IntegrityError\<close>, and the function raises it for
  every store, id and card.
\<close>

theorem update_character_card_raises:
  "update_character_card d character_id card_data
   = (Inl (OperationalError ''no such column: first_message''), d,
      [Connect,
       Execute ''UPDATE CharacterCards SET name = ?, ..., first_message = ? WHERE id = ?'',
       Close])"
  by (simp add: update_character_card_def execute_def logged_def close_def sqlite3_connect_def
        prepare_update_def unknown_column_def CharacterCards_schema_def
        card_update_columns_by_id_def)

subsection \<open>Adding a chat for a character that does not exist\<close>

text \<open>
  Claim C3 says that \<^verbatim>\<open>add_character_chat\<close> fails for a \<^verbatim>\<open>character_id\<close> without a card.
  The foreign key is declared and \<^verbatim>\<open>initialize_database\<close> enables foreign keys, on its own
  connection; \<^verbatim>\<open>add_character_chat\<close> opens a new connection, on which they are off. On the
  empty store the chat for character 999 is inserted and its id returned.
\<close>

theorem add_character_chat_without_character:
  "t_rows (CharacterCards (empty_db ''t0'')) = []
   \<and> fst (add_character_chat (empty_db ''t0'') 999 ''intro'' [(''user'', ''hi'')] None False)
       = Inr (Some 1)
   \<and> map (\<lambda>r. (col r ''id'', col r ''character_id''))
        (t_rows (CharacterChats (fst (snd (add_character_chat (empty_db ''t0'') 999 ''intro''
                                             [(''user'', ''hi'')] None False)))))
       = [(SInt 1, SInt 999)]"
  by code_simp

text \<open>On a connection with foreign keys on, the same row is refused.\<close>

lemma insert_chat_with_foreign_keys:
  "insert_chat True [(''character_id'', SInt 999), (''conversation_name'', SText ''intro'')]
     (empty_db ''t0'') = Inl (IntegrityError ''FOREIGN KEY constraint failed'')"
  by code_simp

subsection \<open>Adding a card\<close>

text \<open>
  Claim C4 says that \<^verbatim>\<open>add_character_card\<close> inserts a card whose name is new and returns
  its id. \<^verbatim>\<open>parse_character_card\<close> copies the key \<^verbatim>\<open>image\<close> only when the card has it
  (line 182); \<^verbatim>\<open>add_character_card\<close> reads \<^verbatim>\<open>parsed_card['image']\<close> in both branches
  (lines 212 and 227). For a card without an image the \<^verbatim>\<open>KeyError\<close> is caught by
  \<^verbatim>\<open>except Exception\<close>: nothing is stored and \<^verbatim>\<open>None\<close> is returned.
\<close>

theorem add_character_card_without_image:
  "add_character_card (empty_db ''t0'') [(''name'', PStr ''Ada'')]
   = (Inr None, empty_db ''t0'',
      [Connect, Execute ''SELECT id FROM CharacterCards WHERE name = ?'', Close])"
  by code_simp

text \<open>The same holds on every store for every card without the key \<^verbatim>\<open>image\<close>.\<close>

lemma subscripts_missing:
  "k \<in> set ks \<Longrightarrow> map_of d k = None \<Longrightarrow> \<exists>e. subscripts d ks = Inl e"
  by (induction ks) (auto simp: subscript_def split: sum.splits option.splits)

lemma parse_character_card_image:
  "parse_character_card card_data = Inr parsed \<Longrightarrow> map_of card_data ''image'' = None
   \<Longrightarrow> map_of parsed ''image'' = None"
  by (auto simp: parse_character_card_def split: option.splits)

lemma execute_keeps_committed:
  "execute sql prep ps ws run c = (r, c') \<Longrightarrow> committed c' = committed c"
  by (auto simp: execute_def logged_def Let_def split: option.splits sum.splits)

lemma add_character_card_needs_image:
  assumes "map_of card_data ''image'' = None"
  shows "fst (add_character_card d card_data) = Inr None
         \<and> fst (snd (add_character_card d card_data)) = d"
proof (cases "parse_character_card card_data")
  case (Inl e)
  then show ?thesis by (simp add: add_character_card_def close_def sqlite3_connect_def)
next
  case (Inr parsed)
  then have img: "map_of parsed ''image'' = None"
    using assms by (rule parse_character_card_image)
  obtain e1 where u: "subscripts parsed card_update_columns = Inl e1"
    using subscripts_missing [OF _ img, of card_update_columns]
    by (auto simp: card_update_columns_def)
  obtain e2 where i: "subscripts parsed card_insert_columns = Inl e2"
    using subscripts_missing [OF _ img, of card_insert_columns]
    by (auto simp: card_insert_columns_def card_update_columns_def)
  show ?thesis
    using Inr u i
    by (auto simp: add_character_card_def close_def sqlite3_connect_def Let_def
             split: sum.splits prod.splits list.splits dest!: execute_keeps_committed)
qed

text \<open>
  Claim C5 says that the list and map fields of every card can be read back after
  \<^verbatim>\<open>add_character_card\<close>. For a card with greetings, tags and extensions and without an
  image, \<^verbatim>\<open>add_character_card\<close> returns \<^verbatim>\<open>None\<close> (as above) and
  \<^verbatim>\<open>get_character_card_by_id(None)\<close> returns \<^verbatim>\<open>None\<close>: no field is read back.
\<close>

theorem card_not_read_back_without_image:
  "fst (add_character_card (empty_db ''t0'') tagged_card) = Inr None
   \<and> fst (get_after_add (empty_db ''t0'') tagged_card) = Inr PNone
   \<and> fst (snd (get_after_add (empty_db ''t0'') tagged_card)) = empty_db ''t0''"
  by code_simp

subsection \<open>The full-text index after an update and after a delete\<close>

text \<open>
  Claim C1 says that after every chat mutation the index matches what a scan of the table
  finds. The trigger \<^verbatim>\<open>CharacterChats_au\<close> runs \<^verbatim>\<open>UPDATE CharacterChats_fts ... WHERE rowid
  = new.id\<close> after the row has changed; the external-content table then removes from the index
  what the row holds now, the new text, and the entry of the old text stays. After
  \<^verbatim>\<open>update_character_chat\<close> has replaced the history that contains ``hello'', the search for
  ``hello'' still returns chat 1, and a scan of the table finds no such row. (Before the update
  both find chat 1.)
\<close>

theorem index_stale_after_update:
  "map hit_id (reply_rows (search_character_chats substring_engine store_chat ''hello'' None))
     = [PInt 1]
   \<and> map_sum id (map row_id) (linear_scan substring_engine store_chat ''hello'') = Inr [1]
   \<and> fst (update_character_chat store_chat 1 [(''user'', ''bye'')]) = Inr True
   \<and> map hit_id (reply_rows (search_character_chats substring_engine store_updated ''hello'' None))
     = [PInt 1]
   \<and> linear_scan substring_engine store_updated ''hello'' = Inr []"
  by code_simp

text \<open>
  Claim C2 says that \<^verbatim>\<open>delete_character_card\<close> leaves no chat of the character and no index
  entry of such a chat. The trigger \<^verbatim>\<open>CharacterChats_ad\<close> runs \<^verbatim>\<open>DELETE FROM
  CharacterChats_fts WHERE rowid = old.id\<close> after the row has left the table; the
  external-content table has no row with that rowid any more and removes nothing. The card and
  its chat are deleted and \<^verbatim>\<open>True\<close> is returned, the index entry of chat 1 is still there;
  a second call returns \<^verbatim>\<open>False\<close>.
\<close>

theorem delete_character_card_leaves_index_entry:
  "map (\<lambda>r. col r ''character_id'') (t_rows (CharacterChats store_chat)) = [SInt 1]
   \<and> fst (delete_character_card store_chat 1) = Inr True
   \<and> t_rows (CharacterCards store_deleted) = []
   \<and> t_rows (CharacterChats store_deleted) = []
   \<and> map fst (CharacterChats_fts store_deleted) = [1]
   \<and> fst (delete_character_card store_deleted 1) = Inr False"
  by code_simp

end
